theory Spec2Isabelle
  imports Main "HOL-Library.Sublist"
begin

section \<open>Vector GraphQL tool server\<close>

text \<open>
  A shallow embedding of \<^verbatim>\<open>vector_server.py\<close>: four tools, each of which builds a
  GraphQL request from constants and its arguments, sends it with one HTTP POST and
  returns the response text or an error text.

  What lies outside the file is made explicit. The HTTP client is a parameter
  (\<open>transport\<close>): what \<^verbatim>\<open>client.post\<close> answers for a request, and the message the
  library puts into the exception of \<^verbatim>\<open>raise_for_status\<close>. The exceptions of the model
  are the instances of Python's \<^verbatim>\<open>Exception\<close>, the class the handlers catch; task
  cancellation and interpreter exit are not transport outcomes and are not modelled.
  The optional \<^verbatim>\<open>ctx\<close> is an \<open>option\<close>: \<open>None\<close> is Python's \<^verbatim>\<open>None\<close> (falsy), \<open>Some c\<close> a
  FastMCP \<^verbatim>\<open>Context\<close> object (truthy). A notification sent to it is recorded as an event
  and returns normally, as the methods of that class do. Every tool returns its
  string together with the events of the invocation in program order.
\<close>

subsection \<open>JSON values, requests and responses\<close>

text \<open>
  The \<^verbatim>\<open>json=\<close> argument of the POST: Python's \<^verbatim>\<open>None\<close>, integers, strings and
  dictionaries, the latter with their entries in insertion order.
\<close>

datatype json_value =
    JNull
  | JInt int
  | JString string
  | JObject "(string \<times> json_value) list"

text \<open>Indexing a dictionary by a key, as \<^verbatim>\<open>payload["variables"]\<close> does.\<close>

fun lookup_field :: "string \<Rightarrow> json_value \<Rightarrow> json_value option" where
  "lookup_field k (JObject kvs) = map_of kvs k"
| "lookup_field k JNull = None"
| "lookup_field k (JInt n) = None"
| "lookup_field k (JString s) = None"

text \<open>
  One outbound request: the arguments of \<^verbatim>\<open>client.post(API_URL, json=payload,
  headers=HEADERS)\<close> and the \<^verbatim>\<open>verify\<close> option of the \<^verbatim>\<open>AsyncClient\<close> that sends it.
\<close>

record request =
  verify :: bool
  url :: string
  json :: json_value
  headers :: "(string \<times> string) list"

record response =
  status_code :: int
  body_text :: string

text \<open>
  An exception with the text \<^verbatim>\<open>str(e)\<close> gives for it: one raised by
  \<^verbatim>\<open>client.post\<close> (connection, DNS, timeout, TLS), or the \<^verbatim>\<open>HTTPStatusError\<close> of
  \<^verbatim>\<open>raise_for_status\<close>.
\<close>

datatype exn =
    Request_error string
  | HTTP_status_error string

fun str :: "exn \<Rightarrow> string" where
  "str (Request_error m) = m"
| "str (HTTP_status_error m) = m"

record transport =
  post :: "request \<Rightarrow> exn + response"
  status_message :: "response \<Rightarrow> string"

text \<open>
  httpx: a response is a success when its status code is 2xx, and
  \<^verbatim>\<open>raise_for_status\<close> raises on every other response, with a message the library
  builds from the response.
\<close>

definition is_success :: "response \<Rightarrow> bool" where
  "is_success r = (200 \<le> status_code r \<and> status_code r \<le> 299)"

definition raise_for_status :: "(response \<Rightarrow> string) \<Rightarrow> response \<Rightarrow> exn option" where
  "raise_for_status describe r =
     (if is_success r then None else Some (HTTP_status_error (describe r)))"

text \<open>What an invocation does to the outside, in program order.\<close>

datatype 'c event =
    Ctx_info 'c string
  | Ctx_error 'c string
  | Post request

fun posted :: "'c event list \<Rightarrow> request list" where
  "posted [] = []"
| "posted (Post r # es) = r # posted es"
| "posted (Ctx_info c m # es) = posted es"
| "posted (Ctx_error c m # es) = posted es"

fun notified :: "'c event list \<Rightarrow> ('c \<times> string) list" where
  "notified [] = []"
| "notified (Post r # es) = notified es"
| "notified (Ctx_info c m # es) = (c, m) # notified es"
| "notified (Ctx_error c m # es) = (c, m) # notified es"

subsection \<open>Endpoint, headers and the query catalog\<close>

definition API_URL :: string where
  "API_URL = ''https://mainnet-api.vector.fun/graphql''"

definition HEADERS :: "(string \<times> string) list" where
  "HEADERS =
     [(''Host'', ''mainnet-api.vector.fun''),
      (''content-type'', ''application/json''),
      (''X-App-Version'', ''1.11.0''),
      (''X-App-Build-Number'', ''331''),
      (''accept'', ''*/*''),
      (''x-app-name'', ''Vector''),
      (''Accept-Language'', ''en-US;q=1''),
      (''user-agent'', ''Vector/331 CFNetwork/1568.200.51 Darwin/24.1.0''),
      (''pragma'', ''no-cache''),
      (''cache-control'', ''no-cache'')]"

text \<open>
  The four GraphQL documents, one source line per literal. Each starts with the line
  break after the opening quotes and ends with the line break before the closing ones.
\<close>

definition LEADERBOARD_QUERY :: string where
  "LEADERBOARD_QUERY =
     ''\<newline>'' @
     ''query leaderboardScreenQuery(\<newline>'' @
     ''  $groupId: String\<newline>'' @
     ''  $leaderboardType: LeaderboardType!\<newline>'' @
     ''  $periodsAgo: Int\<newline>'' @
     ''  $first: Int\<newline>'' @
     ''  $after: String\<newline>'' @
     '') {\<newline>'' @
     ''  ...leaderboardFragment_31k55b\<newline>'' @
     ''}\<newline>'' @
     ''\<newline>'' @
     ''fragment InlineProfileFragment on Profile {\<newline>'' @
     ''  id\<newline>'' @
     ''  ...ProfilePicFragment\<newline>'' @
     ''  ...ProfileUsernameFragment\<newline>'' @
     ''}\<newline>'' @
     ''\<newline>'' @
     ''fragment LeaderboardEntryFragment on LeaderboardEntry {\<newline>'' @
     ''  profileId\<newline>'' @
     ''  broadcastCount\<newline>'' @
     ''  rank\<newline>'' @
     ''  value\<newline>'' @
     ''  percentileV2\<newline>'' @
     ''  profile {\<newline>'' @
     ''    id\<newline>'' @
     ''    username\<newline>'' @
     ''    profileImageUrl\<newline>'' @
     ''    twitterUsername\<newline>'' @
     ''    isVerified\<newline>'' @
     ''    followerCount\<newline>'' @
     ''    followerCountX\<newline>'' @
     ''    ...InlineProfileFragment\<newline>'' @
     ''    ...ProfilePicFragment\<newline>'' @
     ''  }\<newline>'' @
     ''}\<newline>'' @
     ''\<newline>'' @
     ''fragment ProfileBadgesFragment on Profile {\<newline>'' @
     ''  username\<newline>'' @
     ''  twitterUsername\<newline>'' @
     ''  isVerified\<newline>'' @
     ''}\<newline>'' @
     ''\<newline>'' @
     ''fragment ProfilePicFragment on Profile {\<newline>'' @
     ''  id\<newline>'' @
     ''  username\<newline>'' @
     ''  moderationState\<newline>'' @
     ''  profileImageUrl\<newline>'' @
     ''  ...ProfileBadgesFragment\<newline>'' @
     ''}\<newline>'' @
     ''\<newline>'' @
     ''fragment ProfileUsernameFragment on Profile {\<newline>'' @
     ''  username\<newline>'' @
     ''  moderationState\<newline>'' @
     ''  ...ProfileBadgesFragment\<newline>'' @
     ''}\<newline>'' @
     ''\<newline>'' @
     ''fragment leaderboardFragment_31k55b on Query {\<newline>'' @
     ''  leaderboardWeekly(leaderboardType: $leaderboardType, groupId: $groupId, periodsAgo: $periodsAgo, first: $first, after: $after) {\<newline>'' @
     ''    edges {\<newline>'' @
     ''      node {\<newline>'' @
     ''        profileId\<newline>'' @
     ''        ...LeaderboardEntryFragment\<newline>'' @
     ''        __typename\<newline>'' @
     ''      }\<newline>'' @
     ''      cursor\<newline>'' @
     ''    }\<newline>'' @
     ''    resetsAt\<newline>'' @
     ''    pageInfo {\<newline>'' @
     ''      endCursor\<newline>'' @
     ''      hasNextPage\<newline>'' @
     ''    }\<newline>'' @
     ''  }\<newline>'' @
     ''}\<newline>''"

definition PROFILE_QUERY :: string where
  "PROFILE_QUERY =
     ''\<newline>'' @
     ''query UsernameProfileQuery(\<newline>'' @
     ''  $username: String!\<newline>'' @
     ''  $cursor: String\<newline>'' @
     ''  $count: Int\<newline>'' @
     '') {\<newline>'' @
     ''  profile(username: $username, refcode: $username) {\<newline>'' @
     ''    id\<newline>'' @
     ''    username\<newline>'' @
     ''    moderationState\<newline>'' @
     ''    twitterUsername\<newline>'' @
     ''    followerCountX\<newline>'' @
     ''    followerCount\<newline>'' @
     ''    weeklyLeaderboardStanding(leaderboardType: PNL_WIN) {\<newline>'' @
     ''      rank\<newline>'' @
     ''      value\<newline>'' @
     ''    }\<newline>'' @
     ''    profileLeaderboardValues {\<newline>'' @
     ''      daily {\<newline>'' @
     ''        pnl\<newline>'' @
     ''        volume\<newline>'' @
     ''        maxTradeSize\<newline>'' @
     ''      }\<newline>'' @
     ''      weekly {\<newline>'' @
     ''        pnl\<newline>'' @
     ''        volume\<newline>'' @
     ''        maxTradeSize\<newline>'' @
     ''      }\<newline>'' @
     ''    }\<newline>'' @
     ''  }\<newline>'' @
     ''  userHoldings(id: $username, after: $cursor, first: $count) {\<newline>'' @
     ''    edges {\<newline>'' @
     ''      cursor\<newline>'' @
     ''      node {\<newline>'' @
     ''        portfolioPercentage\<newline>'' @
     ''        token {\<newline>'' @
     ''          id\<newline>'' @
     ''          address\<newline>'' @
     ''          chain\<newline>'' @
     ''          name\<newline>'' @
     ''          symbol\<newline>'' @
     ''          image\<newline>'' @
     ''        }\<newline>'' @
     ''      }\<newline>'' @
     ''    }\<newline>'' @
     ''    pageInfo {\<newline>'' @
     ''      hasNextPage\<newline>'' @
     ''      endCursor\<newline>'' @
     ''    }\<newline>'' @
     ''  }\<newline>'' @
     ''  userBroadcastsV2(id: $username, after: $cursor, first: $count) {\<newline>'' @
     ''    edges {\<newline>'' @
     ''      cursor\<newline>'' @
     ''      node {\<newline>'' @
     ''        broadcast {\<newline>'' @
     ''          id\<newline>'' @
     ''          message\<newline>'' @
     ''          createdAt\<newline>'' @
     ''          buyTokenId\<newline>'' @
     ''          buyTokenAmount\<newline>'' @
     ''          buyPositionSize\<newline>'' @
     ''          buyTokenPrice: buyTokenPriceV2\<newline>'' @
     ''          sellTokenId\<newline>'' @
     ''          sellTokenAmount\<newline>'' @
     ''          sellPositionSize\<newline>'' @
     ''          sellTokenPrice: sellTokenPriceV2\<newline>'' @
     ''          broadcastCandleChart {\<newline>'' @
     ''            cycleStats {\<newline>'' @
     ''              pnl\<newline>'' @
     ''              totalBought\<newline>'' @
     ''              totalHeld\<newline>'' @
     ''              totalSold\<newline>'' @
     ''            }\<newline>'' @
     ''          }\<newline>'' @
     ''        }\<newline>'' @
     ''        buyToken {\<newline>'' @
     ''          id\<newline>'' @
     ''          chain\<newline>'' @
     ''          name\<newline>'' @
     ''          symbol\<newline>'' @
     ''          price\<newline>'' @
     ''          image\<newline>'' @
     ''          address\<newline>'' @
     ''        }\<newline>'' @
     ''        sellToken {\<newline>'' @
     ''          id\<newline>'' @
     ''          chain\<newline>'' @
     ''          name\<newline>'' @
     ''          symbol\<newline>'' @
     ''          price\<newline>'' @
     ''          image\<newline>'' @
     ''          address\<newline>'' @
     ''        }\<newline>'' @
     ''      }\<newline>'' @
     ''    }\<newline>'' @
     ''    pageInfo {\<newline>'' @
     ''      endCursor\<newline>'' @
     ''      hasNextPage\<newline>'' @
     ''    }\<newline>'' @
     ''  }\<newline>'' @
     ''}\<newline>''"

definition TOKENS_LIST_QUERY :: string where
  "TOKENS_LIST_QUERY =
     ''\<newline>'' @
     ''query TokensListRefetchQuery(\<newline>'' @
     ''    $count: Int = 25\<newline>'' @
     ''    $cursor: String\<newline>'' @
     ''    $filterBy: String\<newline>'' @
     ''    $query: String\<newline>'' @
     ''    $sortBy: String\<newline>'' @
     '') {\<newline>'' @
     ''    searchTokens(query: $query, sortBy: $sortBy, filterBy: $filterBy, after: $cursor, first: $count) {\<newline>'' @
     ''        edges {\<newline>'' @
     ''            node {\<newline>'' @
     ''                id\<newline>'' @
     ''                address\<newline>'' @
     ''                chain\<newline>'' @
     ''                symbol\<newline>'' @
     ''                price\<newline>'' @
     ''                supply\<newline>'' @
     ''                volume5min\<newline>'' @
     ''                volume1h\<newline>'' @
     ''                volume6h\<newline>'' @
     ''                volume24h\<newline>'' @
     ''                broadcastCount5min\<newline>'' @
     ''                broadcastCount1h\<newline>'' @
     ''                broadcastCount6h\<newline>'' @
     ''                broadcastCount24h\<newline>'' @
     ''                top10HolderPercentV2\<newline>'' @
     ''                firstIndexedTimestamp\<newline>'' @
     ''                insiderHoldingPercent\<newline>'' @
     ''                devHoldingPercent\<newline>'' @
     ''            }\<newline>'' @
     ''        }\<newline>'' @
     ''    }\<newline>'' @
     ''}\<newline>''"

definition TOKEN_BROADCASTS_QUERY :: string where
  "TOKEN_BROADCASTS_QUERY =
     ''\<newline>'' @
     ''query TokenBroadcastsQuery(\<newline>'' @
     ''    $id: ID!\<newline>'' @
     ''    $after: String\<newline>'' @
     ''    $first: Int = 100\<newline>'' @
     ''    $sortBy: TokenBroadcastSortBy\<newline>'' @
     ''    $sortDirection: TokenBroadcastSortDirection\<newline>'' @
     '') {\<newline>'' @
     ''    tokenBroadcasts(\<newline>'' @
     ''        id: $id\<newline>'' @
     ''        after: $after\<newline>'' @
     ''        first: $first\<newline>'' @
     ''        sortBy: $sortBy\<newline>'' @
     ''        sortDirection: $sortDirection\<newline>'' @
     ''    ) {\<newline>'' @
     ''        edges {\<newline>'' @
     ''            node {\<newline>'' @
     ''                broadcast {\<newline>'' @
     ''                    message\<newline>'' @
     ''                }\<newline>'' @
     ''            }\<newline>'' @
     ''        }\<newline>'' @
     ''    }\<newline>'' @
     ''}\<newline>''"

subsection \<open>The tools\<close>

text \<open>
  \<^verbatim>\<open>leaderboard_type\<close> has the default \<^verbatim>\<open>"PNL_WIN"\<close>: \<open>None\<close> is a call that leaves
  the argument out.
\<close>

definition fetch_leaderboard ::
  "transport \<Rightarrow> string option \<Rightarrow> 'c option \<Rightarrow> string \<times> 'c event list" where
  "fetch_leaderboard client leaderboard_type_arg ctx =
     (let leaderboard_type =
            (case leaderboard_type_arg of None \<Rightarrow> ''PNL_WIN'' | Some t \<Rightarrow> t);
          started =
            (case ctx of
               None \<Rightarrow> []
             | Some c \<Rightarrow> [Ctx_info c (''Fetching '' @ leaderboard_type @ '' leaderboard data...'')]);
          variables = JObject
            [(''after'', JNull),
             (''first'', JInt 100),
             (''groupId'', JNull),
             (''leaderboardType'', JString leaderboard_type),
             (''periodsAgo'', JNull)];
          payload = JObject
            [(''query'', JString LEADERBOARD_QUERY),
             (''variables'', variables)];
          request = \<lparr>verify = False, url = API_URL, json = payload, headers = HEADERS\<rparr>;
          attempt =
            (case post client request of
               Inl e \<Rightarrow> Inl e
             | Inr response \<Rightarrow>
                 (case raise_for_status (status_message client) response of
                    Some e \<Rightarrow> Inl e
                  | None \<Rightarrow> Inr (body_text response)))
      in case attempt of
           Inr body \<Rightarrow> (body, started @ [Post request])
         | Inl e \<Rightarrow>
             (let error_message = ''Error fetching leaderboard data: '' @ str e
              in (error_message,
                  started @ [Post request] @
                  (case ctx of None \<Rightarrow> [] | Some c \<Rightarrow> [Ctx_error c error_message]))))"

definition fetch_profile ::
  "transport \<Rightarrow> string \<Rightarrow> 'c option \<Rightarrow> string \<times> 'c event list" where
  "fetch_profile client username ctx =
     (let started =
            (case ctx of
               None \<Rightarrow> []
             | Some c \<Rightarrow> [Ctx_info c (''Fetching profile data for '' @ username @ ''...'')]);
          variables = JObject
            [(''username'', JString username),
             (''cursor'', JNull),
             (''count'', JInt 10)];
          payload = JObject
            [(''query'', JString PROFILE_QUERY),
             (''variables'', variables)];
          request = \<lparr>verify = False, url = API_URL, json = payload, headers = HEADERS\<rparr>;
          attempt =
            (case post client request of
               Inl e \<Rightarrow> Inl e
             | Inr response \<Rightarrow>
                 (case raise_for_status (status_message client) response of
                    Some e \<Rightarrow> Inl e
                  | None \<Rightarrow> Inr (body_text response)))
      in case attempt of
           Inr body \<Rightarrow> (body, started @ [Post request])
         | Inl e \<Rightarrow>
             (let error_message = ''Error fetching profile data: '' @ str e
              in (error_message,
                  started @ [Post request] @
                  (case ctx of None \<Rightarrow> [] | Some c \<Rightarrow> [Ctx_error c error_message]))))"

definition fetch_token_data ::
  "transport \<Rightarrow> 'c option \<Rightarrow> string \<times> 'c event list" where
  "fetch_token_data client ctx =
     (let started =
            (case ctx of
               None \<Rightarrow> []
             | Some c \<Rightarrow> [Ctx_info c ''Fetching trending Solana tokens...'']);
          variables = JObject
            [(''count'', JInt 50),
             (''cursor'', JNull),
             (''filterBy'', JString ''(broadcastCount5minV2:>0) && (chain:SOLANA)''),
             (''query'', JNull),
             (''sortBy'', JString ''trendingScore5min:desc'')];
          payload = JObject
            [(''query'', JString TOKENS_LIST_QUERY),
             (''variables'', variables)];
          request = \<lparr>verify = False, url = API_URL, json = payload, headers = HEADERS\<rparr>;
          attempt =
            (case post client request of
               Inl e \<Rightarrow> Inl e
             | Inr response \<Rightarrow>
                 (case raise_for_status (status_message client) response of
                    Some e \<Rightarrow> Inl e
                  | None \<Rightarrow> Inr (body_text response)))
      in case attempt of
           Inr body \<Rightarrow> (body, started @ [Post request])
         | Inl e \<Rightarrow>
             (let error_message = ''Error fetching token data: '' @ str e
              in (error_message,
                  started @ [Post request] @
                  (case ctx of None \<Rightarrow> [] | Some c \<Rightarrow> [Ctx_error c error_message]))))"

definition fetch_token_broadcasts ::
  "transport \<Rightarrow> string \<Rightarrow> 'c option \<Rightarrow> string \<times> 'c event list" where
  "fetch_token_broadcasts client token_id ctx =
     (let started =
            (case ctx of
               None \<Rightarrow> []
             | Some c \<Rightarrow> [Ctx_info c (''Fetching broadcasts for token '' @ token_id @ ''...'')]);
          variables = JObject
            [(''id'', JString token_id),
             (''after'', JNull),
             (''first'', JInt 100),
             (''sortBy'', JString ''Time''),
             (''sortDirection'', JString ''Desc'')];
          payload = JObject
            [(''query'', JString TOKEN_BROADCASTS_QUERY),
             (''variables'', variables)];
          request = \<lparr>verify = False, url = API_URL, json = payload, headers = HEADERS\<rparr>;
          attempt =
            (case post client request of
               Inl e \<Rightarrow> Inl e
             | Inr response \<Rightarrow>
                 (case raise_for_status (status_message client) response of
                    Some e \<Rightarrow> Inl e
                  | None \<Rightarrow> Inr (body_text response)))
      in case attempt of
           Inr body \<Rightarrow> (body, started @ [Post request])
         | Inl e \<Rightarrow>
             (let error_message = ''Error fetching token broadcasts: '' @ str e
              in (error_message,
                  started @ [Post request] @
                  (case ctx of None \<Rightarrow> [] | Some c \<Rightarrow> [Ctx_error c error_message]))))"

text \<open>
  The registry of \<^verbatim>\<open>@mcp.tool(name=...)\<close>: a call names one of the four tools and
  gives its arguments.
\<close>

datatype tool_call =
    Fetch_leaderboard "string option"
  | Fetch_profile string
  | Fetch_token_data
  | Fetch_token_broadcasts string

fun tool_name :: "tool_call \<Rightarrow> string" where
  "tool_name (Fetch_leaderboard t) = ''fetch_leaderboard''"
| "tool_name (Fetch_profile u) = ''fetch_profile''"
| "tool_name Fetch_token_data = ''fetch_token_data''"
| "tool_name (Fetch_token_broadcasts i) = ''fetch_token_broadcasts''"

fun call_tool :: "transport \<Rightarrow> tool_call \<Rightarrow> 'c option \<Rightarrow> string \<times> 'c event list" where
  "call_tool client (Fetch_leaderboard t) ctx = fetch_leaderboard client t ctx"
| "call_tool client (Fetch_profile u) ctx = fetch_profile client u ctx"
| "call_tool client Fetch_token_data ctx = fetch_token_data client ctx"
| "call_tool client (Fetch_token_broadcasts i) ctx = fetch_token_broadcasts client i ctx"

section \<open>Properties\<close>

subsection \<open>Shared facts\<close>

lemmas tool_defs =
  fetch_leaderboard_def fetch_profile_def fetch_token_data_def fetch_token_broadcasts_def

lemma posted_append: "posted (xs @ ys) = posted xs @ posted ys"
  by (induction xs rule: posted.induct) simp_all

lemma posted_info: "posted (case ctx of None \<Rightarrow> [] | Some c \<Rightarrow> [Ctx_info c m]) = []"
  by (cases ctx) simp_all

lemma posted_error: "posted (case ctx of None \<Rightarrow> [] | Some c \<Rightarrow> [Ctx_error c m]) = []"
  by (cases ctx) simp_all

lemma posted_in_trace: "Post r \<in> set es \<Longrightarrow> r \<in> set (posted es)"
  by (induction es rule: posted.induct) auto

text \<open>
  Every invocation sends exactly one request, whatever the client answers and whether
  or not an observer is present; the request is built from constants and the argument.
\<close>

lemma posted_leaderboard:
  "posted (snd (fetch_leaderboard client t ctx)) =
     [\<lparr>verify = False, url = API_URL,
       json = JObject
         [(''query'', JString LEADERBOARD_QUERY),
          (''variables'', JObject
             [(''after'', JNull), (''first'', JInt 100), (''groupId'', JNull),
              (''leaderboardType'',
                 JString (case t of None \<Rightarrow> ''PNL_WIN'' | Some s \<Rightarrow> s)),
              (''periodsAgo'', JNull)])],
       headers = HEADERS\<rparr>]"
  by (simp add: fetch_leaderboard_def Let_def posted_append posted_info posted_error
      split: sum.splits option.splits)

lemma posted_profile:
  "posted (snd (fetch_profile client u ctx)) =
     [\<lparr>verify = False, url = API_URL,
       json = JObject
         [(''query'', JString PROFILE_QUERY),
          (''variables'', JObject
             [(''username'', JString u), (''cursor'', JNull), (''count'', JInt 10)])],
       headers = HEADERS\<rparr>]"
  by (simp add: fetch_profile_def Let_def posted_append posted_info posted_error
      split: sum.splits option.splits)

lemma posted_token_data:
  "posted (snd (fetch_token_data client ctx)) =
     [\<lparr>verify = False, url = API_URL,
       json = JObject
         [(''query'', JString TOKENS_LIST_QUERY),
          (''variables'', JObject
             [(''count'', JInt 50), (''cursor'', JNull),
              (''filterBy'', JString ''(broadcastCount5minV2:>0) && (chain:SOLANA)''),
              (''query'', JNull),
              (''sortBy'', JString ''trendingScore5min:desc'')])],
       headers = HEADERS\<rparr>]"
  by (simp add: fetch_token_data_def Let_def posted_append posted_info posted_error
      split: sum.splits option.splits)

lemma posted_token_broadcasts:
  "posted (snd (fetch_token_broadcasts client i ctx)) =
     [\<lparr>verify = False, url = API_URL,
       json = JObject
         [(''query'', JString TOKEN_BROADCASTS_QUERY),
          (''variables'', JObject
             [(''id'', JString i), (''after'', JNull), (''first'', JInt 100),
              (''sortBy'', JString ''Time''), (''sortDirection'', JString ''Desc'')])],
       headers = HEADERS\<rparr>]"
  by (simp add: fetch_token_broadcasts_def Let_def posted_append posted_info posted_error
      split: sum.splits option.splits)

lemmas posted_tools =
  posted_leaderboard posted_profile posted_token_data posted_token_broadcasts

text \<open>What an invocation returns and emits, in terms of its one request.\<close>

lemma result_ignores_ctx: "fst (call_tool client tc ctx) = fst (call_tool client tc ctx')"
  by (cases tc) (simp_all add: tool_defs Let_def split: sum.splits option.splits)

lemma result_of_call:
  assumes "r \<in> set (posted (snd (call_tool client tc ctx)))"
  shows "fst (call_tool client tc ctx) =
     (case post client r of
        Inl e \<Rightarrow>
          (case tc of
             Fetch_leaderboard t \<Rightarrow> ''Error fetching leaderboard data: ''
           | Fetch_profile u \<Rightarrow> ''Error fetching profile data: ''
           | Fetch_token_data \<Rightarrow> ''Error fetching token data: ''
           | Fetch_token_broadcasts i \<Rightarrow> ''Error fetching token broadcasts: '') @ str e
      | Inr resp \<Rightarrow>
          if is_success resp then body_text resp
          else
            (case tc of
               Fetch_leaderboard t \<Rightarrow> ''Error fetching leaderboard data: ''
             | Fetch_profile u \<Rightarrow> ''Error fetching profile data: ''
             | Fetch_token_data \<Rightarrow> ''Error fetching token data: ''
             | Fetch_token_broadcasts i \<Rightarrow> ''Error fetching token broadcasts: '') @
            status_message client resp)"
  apply (insert assms)
  apply (cases tc; simp add: posted_tools)
     apply (simp_all add: tool_defs Let_def raise_for_status_def split: sum.splits)
  done

lemma trace_without_ctx:
  "snd (call_tool client tc (None :: 'c option)) =
     map Post (posted (snd (call_tool client tc (None :: 'c option))))"
  by (cases tc) (simp_all add: tool_defs Let_def split: sum.splits option.splits)

lemma call_determined_by_outcome:
  assumes "r \<in> set (posted (snd (call_tool client tc ctx)))"
    and "post client' r = post client r"
    and "status_message client' = status_message client"
  shows "call_tool client' tc ctx = call_tool client tc ctx"
  apply (insert assms)
  apply (cases tc; simp add: posted_tools)
     apply (simp_all add: tool_defs Let_def split: sum.splits option.splits)
  done

subsection \<open>Failure and success of the request\<close>

text \<open>
  Claim C1. Whenever the request a tool sent fails, either because the transport
  raised an exception or because the response has a status outside 2xx (so that
  \<^verbatim>\<open>raise_for_status\<close> raised), the tool returns a string: the prefix \<open>Error\<close>, the
  tool's action, a colon, and the text of the exception that was raised.
\<close>

theorem C1_failure_returns_error_text:
  assumes sent: "Post req \<in> set (snd (call_tool client tc ctx))"
    and failed: "post client req = Inl e \<or>
      (\<exists>r. post client req = Inr r \<and> \<not> is_success r \<and>
           e = HTTP_status_error (status_message client r))"
  shows "fst (call_tool client tc ctx) =
           ''Error '' @
           (case tc of
              Fetch_leaderboard t \<Rightarrow> ''fetching leaderboard data''
            | Fetch_profile u \<Rightarrow> ''fetching profile data''
            | Fetch_token_data \<Rightarrow> ''fetching token data''
            | Fetch_token_broadcasts i \<Rightarrow> ''fetching token broadcasts'') @
           '': '' @ str e
         \<and> prefix ''Error '' (fst (call_tool client tc ctx))"
proof -
  from sent have "req \<in> set (posted (snd (call_tool client tc ctx)))"
    by (rule posted_in_trace)
  with failed show ?thesis
    by (cases tc; simp add: posted_tools; auto simp: tool_defs Let_def raise_for_status_def)
qed

text \<open>
  The scenario of the specification: \<^verbatim>\<open>fetch_profile(username="trader1")\<close> with an
  endpoint that cannot be reached; and a server that answers 503.
\<close>

theorem C1_unreachable_profile_witness:
  "fst (call_tool
          \<lparr>post = \<lambda>q. Inl (Request_error ''All connection attempts failed''),
           status_message = \<lambda>r. ''Server error''\<rparr>
          (Fetch_profile ''trader1'') (None :: unit option)) =
     ''Error fetching profile data: All connection attempts failed''
   \<and> fst (call_tool
          \<lparr>post = \<lambda>q. Inr \<lparr>status_code = 503, body_text = ''busy''\<rparr>,
           status_message = \<lambda>r. ''Server error''\<rparr>
          (Fetch_profile ''trader1'') (Some ())) =
     ''Error fetching profile data: Server error''"
proof -
  let ?down = "\<lparr>post = \<lambda>q. Inl (Request_error ''All connection attempts failed''),
                 status_message = \<lambda>r. ''Server error''\<rparr>"
  let ?busy = "\<lparr>post = \<lambda>q. Inr \<lparr>status_code = 503, body_text = ''busy''\<rparr>,
                 status_message = \<lambda>r. ''Server error''\<rparr>"
  let ?req = "\<lparr>verify = False, url = API_URL,
                json = JObject
                  [(''query'', JString PROFILE_QUERY),
                   (''variables'', JObject
                      [(''username'', JString ''trader1''), (''cursor'', JNull),
                       (''count'', JInt 10)])],
                headers = HEADERS\<rparr>"
  have sent1: "Post ?req \<in> set (snd (call_tool ?down (Fetch_profile ''trader1'') (None :: unit option)))"
    by (simp add: fetch_profile_def Let_def)
  have failed1: "post ?down ?req = Inl (Request_error ''All connection attempts failed'') \<or>
      (\<exists>r. post ?down ?req = Inr r \<and> \<not> is_success r \<and>
           Request_error ''All connection attempts failed'' =
             HTTP_status_error (status_message ?down r))"
    by simp
  have sent2: "Post ?req \<in> set (snd (call_tool ?busy (Fetch_profile ''trader1'') (Some ())))"
    by (simp add: fetch_profile_def Let_def raise_for_status_def is_success_def)
  have failed2: "post ?busy ?req = Inl (HTTP_status_error ''Server error'') \<or>
      (\<exists>r. post ?busy ?req = Inr r \<and> \<not> is_success r \<and>
           HTTP_status_error ''Server error'' =
             HTTP_status_error (status_message ?busy r))"
    by (simp add: is_success_def)
  from C1_failure_returns_error_text [OF sent1 failed1]
       C1_failure_returns_error_text [OF sent2 failed2]
  show ?thesis by simp
qed

text \<open>
  Claim C2. Whenever the request a tool sent is answered with a 2xx status, the tool
  returns the text of the response as it is.
\<close>

theorem C2_success_returns_body_verbatim:
  assumes sent: "Post req \<in> set (snd (call_tool client tc ctx))"
    and answered: "post client req = Inr r"
    and ok: "is_success r"
  shows "fst (call_tool client tc ctx) = body_text r"
proof -
  from sent have "req \<in> set (posted (snd (call_tool client tc ctx)))"
    by (rule posted_in_trace)
  with answered ok show ?thesis
    by (cases tc; simp add: posted_tools; auto simp: tool_defs Let_def raise_for_status_def)
qed

text \<open>
  The scenario of the specification: \<^verbatim>\<open>fetch_token_broadcasts(token_id="abc123")\<close>
  answered with status 200 and an empty list of edges.
\<close>

theorem C2_token_broadcasts_witness:
  "fst (call_tool
          \<lparr>post = \<lambda>q. Inr \<lparr>status_code = 200,
                              body_text = ''{\"data\":{\"tokenBroadcasts\":{\"edges\":[]}}}''\<rparr>,
           status_message = \<lambda>r. ''unused''\<rparr>
          (Fetch_token_broadcasts ''abc123'') (None :: unit option)) =
     ''{\"data\":{\"tokenBroadcasts\":{\"edges\":[]}}}''"
proof -
  let ?resp = "\<lparr>status_code = 200,
                 body_text = ''{\"data\":{\"tokenBroadcasts\":{\"edges\":[]}}}''\<rparr>"
  let ?client = "\<lparr>post = \<lambda>q. Inr ?resp, status_message = \<lambda>r. ''unused''\<rparr>"
  let ?req = "\<lparr>verify = False, url = API_URL,
                json = JObject
                  [(''query'', JString TOKEN_BROADCASTS_QUERY),
                   (''variables'', JObject
                      [(''id'', JString ''abc123''), (''after'', JNull),
                       (''first'', JInt 100), (''sortBy'', JString ''Time''),
                       (''sortDirection'', JString ''Desc'')])],
                headers = HEADERS\<rparr>"
  have sent: "Post ?req \<in> set (snd (call_tool ?client (Fetch_token_broadcasts ''abc123'') (None :: unit option)))"
    by (simp add: fetch_token_broadcasts_def Let_def raise_for_status_def is_success_def)
  have answered: "post ?client ?req = Inr ?resp"
    by simp
  have ok: "is_success ?resp"
    by (simp add: is_success_def)
  from C2_success_returns_body_verbatim [OF sent answered ok]
  show ?thesis by simp
qed

subsection \<open>The request body\<close>

text \<open>
  Claim C3. The one request of \<^verbatim>\<open>fetch_leaderboard(leaderboard_type=t)\<close> carries the
  variables \<open>after = null\<close>, \<open>first = 100\<close>, \<open>groupId = null\<close>, \<open>leaderboardType = t\<close>,
  \<open>periodsAgo = null\<close> and nothing else; a call without the argument sends
  \<open>leaderboardType = PNL_WIN\<close>.
\<close>

theorem C3_leaderboard_variables:
  "map (\<lambda>r. lookup_field ''variables'' (json r))
       (posted (snd (fetch_leaderboard client (Some t) ctx))) =
     [Some (JObject
        [(''after'', JNull), (''first'', JInt 100), (''groupId'', JNull),
         (''leaderboardType'', JString t), (''periodsAgo'', JNull)])]
   \<and> map (\<lambda>r. lookup_field ''variables'' (json r))
       (posted (snd (fetch_leaderboard client None ctx))) =
     [Some (JObject
        [(''after'', JNull), (''first'', JInt 100), (''groupId'', JNull),
         (''leaderboardType'', JString ''PNL_WIN''), (''periodsAgo'', JNull)])]"
  by (simp add: posted_leaderboard)

text \<open>
  Claim C4. The variables of the other three tools: \<^verbatim>\<open>fetch_profile\<close> sends the
  username with \<open>cursor = null\<close> and \<open>count = 10\<close>; \<^verbatim>\<open>fetch_token_data\<close> sends
  \<open>count = 50\<close>, \<open>cursor = null\<close>, the fixed filter, \<open>query = null\<close> and the fixed
  sort order; \<^verbatim>\<open>fetch_token_broadcasts\<close> sends the token id with \<open>after = null\<close>,
  \<open>first = 100\<close>, \<open>sortBy = Time\<close> and \<open>sortDirection = Desc\<close>.
\<close>

theorem C4_other_tools_variables:
  "map (\<lambda>r. lookup_field ''variables'' (json r))
       (posted (snd (fetch_profile client u ctx))) =
     [Some (JObject
        [(''username'', JString u), (''cursor'', JNull), (''count'', JInt 10)])]
   \<and> map (\<lambda>r. lookup_field ''variables'' (json r))
       (posted (snd (fetch_token_data client ctx))) =
     [Some (JObject
        [(''count'', JInt 50), (''cursor'', JNull),
         (''filterBy'', JString ''(broadcastCount5minV2:>0) && (chain:SOLANA)''),
         (''query'', JNull),
         (''sortBy'', JString ''trendingScore5min:desc'')])]
   \<and> map (\<lambda>r. lookup_field ''variables'' (json r))
       (posted (snd (fetch_token_broadcasts client i ctx))) =
     [Some (JObject
        [(''id'', JString i), (''after'', JNull), (''first'', JInt 100),
         (''sortBy'', JString ''Time''), (''sortDirection'', JString ''Desc'')])]"
  by (simp add: posted_profile posted_token_data posted_token_broadcasts)

text \<open>
  Claim C5. The \<open>query\<close> field of the one request of every tool is the catalog document
  of that tool.
\<close>

theorem C5_query_is_catalog_document:
  "map (\<lambda>r. lookup_field ''query'' (json r)) (posted (snd (call_tool client tc ctx))) =
     [Some (JString
        (case tc of
           Fetch_leaderboard t \<Rightarrow> LEADERBOARD_QUERY
         | Fetch_profile u \<Rightarrow> PROFILE_QUERY
         | Fetch_token_data \<Rightarrow> TOKENS_LIST_QUERY
         | Fetch_token_broadcasts i \<Rightarrow> TOKEN_BROADCASTS_QUERY))]"
  by (cases tc) (simp_all add: posted_tools)

subsection \<open>Requests, observers and results\<close>

text \<open>
  Claim C6. The request of an invocation is a function of the tool and its arguments
  alone: two invocations of the same call, whatever the client answers and whoever
  observes, each send one request, the same one, so any encoder of the body gives the
  same bytes.
\<close>

theorem C6_same_call_same_request:
  "\<exists>build. \<forall>tc client1 client2 (ctx1 :: 'c option) (ctx2 :: 'c option).
     posted (snd (call_tool client1 tc ctx1)) = [build tc] \<and>
     posted (snd (call_tool client2 tc ctx2)) = [build tc] \<and>
     (\<forall>encode :: json_value \<Rightarrow> string.
        map (\<lambda>r. encode (json r)) (posted (snd (call_tool client1 tc ctx1))) =
        map (\<lambda>r. encode (json r)) (posted (snd (call_tool client2 tc ctx2))))"
proof -
  define quiet :: transport
    where "quiet = \<lparr>post = \<lambda>q. Inl (Request_error []), status_message = \<lambda>r. []\<rparr>"
  define build :: "tool_call \<Rightarrow> request"
    where "build tc = hd (posted (snd (call_tool quiet tc (None :: 'c option))))" for tc
  have sends: "posted (snd (call_tool client tc ctx)) = [build tc]"
    for client tc and ctx :: "'c option"
    unfolding build_def by (cases tc) (simp_all add: posted_tools)
  show ?thesis
    by (rule exI [of _ build]) (simp add: sends)
qed

text \<open>
  Claim C7. The one request of every invocation is a POST to the fixed URL, which is an
  HTTPS one, with the fixed headers, among them the content type and the cache control,
  a body of two fields, \<open>query\<close> (a string) and \<open>variables\<close> (an object), sent by a
  client that does not verify certificates.
\<close>

theorem C7_request_shape:
  "\<exists>q vars.
     posted (snd (call_tool client tc ctx)) =
       [\<lparr>verify = False,
         url = ''https://mainnet-api.vector.fun/graphql'',
         json = JObject [(''query'', JString q), (''variables'', JObject vars)],
         headers = HEADERS\<rparr>]
     \<and> map_of HEADERS ''content-type'' = Some ''application/json''
     \<and> map_of HEADERS ''cache-control'' = Some ''no-cache''"
  by (cases tc) (simp_all add: posted_tools API_URL_def HEADERS_def)

text \<open>
  Claim C8. Without an observer an invocation does nothing but send its request: no
  notification is attempted, and it returns the body or the error text, the same
  string as with an observer.
\<close>

theorem C8_absent_observer:
  "\<exists>r. snd (call_tool client tc (None :: 'c option)) = [Post r]
     \<and> notified (snd (call_tool client tc (None :: 'c option))) = []
     \<and> fst (call_tool client tc (None :: 'c option)) =
         (case post client r of
            Inl e \<Rightarrow>
              (case tc of
                 Fetch_leaderboard t \<Rightarrow> ''Error fetching leaderboard data: ''
               | Fetch_profile u \<Rightarrow> ''Error fetching profile data: ''
               | Fetch_token_data \<Rightarrow> ''Error fetching token data: ''
               | Fetch_token_broadcasts i \<Rightarrow> ''Error fetching token broadcasts: '') @ str e
          | Inr resp \<Rightarrow>
              if is_success resp then body_text resp
              else
                (case tc of
                   Fetch_leaderboard t \<Rightarrow> ''Error fetching leaderboard data: ''
                 | Fetch_profile u \<Rightarrow> ''Error fetching profile data: ''
                 | Fetch_token_data \<Rightarrow> ''Error fetching token data: ''
                 | Fetch_token_broadcasts i \<Rightarrow> ''Error fetching token broadcasts: '') @
                status_message client resp)
     \<and> fst (call_tool client tc (None :: 'c option)) = fst (call_tool client tc (Some c))"
proof -
  obtain r where one: "posted (snd (call_tool client tc (None :: 'c option))) = [r]"
    by (cases tc) (simp_all add: posted_tools)
  have trace: "snd (call_tool client tc (None :: 'c option)) = [Post r]"
    using trace_without_ctx [of client tc, where ?'c = 'c] one by simp
  have quiet: "notified (snd (call_tool client tc (None :: 'c option))) = []"
    by (simp add: trace)
  have "r \<in> set (posted (snd (call_tool client tc (None :: 'c option))))"
    by (simp add: one)
  then have result: "fst (call_tool client tc (None :: 'c option)) =
         (case post client r of
            Inl e \<Rightarrow>
              (case tc of
                 Fetch_leaderboard t \<Rightarrow> ''Error fetching leaderboard data: ''
               | Fetch_profile u \<Rightarrow> ''Error fetching profile data: ''
               | Fetch_token_data \<Rightarrow> ''Error fetching token data: ''
               | Fetch_token_broadcasts i \<Rightarrow> ''Error fetching token broadcasts: '') @ str e
          | Inr resp \<Rightarrow>
              if is_success resp then body_text resp
              else
                (case tc of
                   Fetch_leaderboard t \<Rightarrow> ''Error fetching leaderboard data: ''
                 | Fetch_profile u \<Rightarrow> ''Error fetching profile data: ''
                 | Fetch_token_data \<Rightarrow> ''Error fetching token data: ''
                 | Fetch_token_broadcasts i \<Rightarrow> ''Error fetching token broadcasts: '') @
                status_message client resp)"
    by (rule result_of_call)
  have same: "fst (call_tool client tc (None :: 'c option)) = fst (call_tool client tc (Some c))"
    by (rule result_ignores_ctx)
  from trace quiet result same show ?thesis
    by blast
qed

text \<open>
  Claim C9. Every invocation sends exactly one request and returns one string: the
  body of the response when the status is 2xx, an error text with the message of the
  failure otherwise. Nothing else bears on it: a client that gives the same outcome
  for this one request gives the same invocation, whatever it would answer elsewhere.
\<close>

theorem C9_one_request_one_response:
  "\<exists>r. posted (snd (call_tool client tc ctx)) = [r]
     \<and> length (posted (snd (call_tool client tc ctx))) = 1
     \<and> (case post client r of
          Inl e \<Rightarrow>
            prefix ''Error '' (fst (call_tool client tc ctx)) \<and>
            suffix (str e) (fst (call_tool client tc ctx))
        | Inr resp \<Rightarrow>
            if is_success resp then fst (call_tool client tc ctx) = body_text resp
            else prefix ''Error '' (fst (call_tool client tc ctx)) \<and>
                 suffix (status_message client resp) (fst (call_tool client tc ctx)))
     \<and> (\<forall>client'.
          post client' r = post client r \<and> status_message client' = status_message client
          \<longrightarrow> call_tool client' tc ctx = call_tool client tc ctx)"
proof -
  obtain r where one: "posted (snd (call_tool client tc ctx)) = [r]"
    by (cases tc) (simp_all add: posted_tools)
  then have sent: "r \<in> set (posted (snd (call_tool client tc ctx)))"
    by simp
  have count: "length (posted (snd (call_tool client tc ctx))) = 1"
    by (simp add: one)
  have result: "case post client r of
          Inl e \<Rightarrow>
            prefix ''Error '' (fst (call_tool client tc ctx)) \<and>
            suffix (str e) (fst (call_tool client tc ctx))
        | Inr resp \<Rightarrow>
            if is_success resp then fst (call_tool client tc ctx) = body_text resp
            else prefix ''Error '' (fst (call_tool client tc ctx)) \<and>
                 suffix (status_message client resp) (fst (call_tool client tc ctx))"
    unfolding result_of_call [OF sent]
    by (cases tc) (simp_all add: suffix_def split: sum.splits)
  have same: "\<forall>client'.
          post client' r = post client r \<and> status_message client' = status_message client
          \<longrightarrow> call_tool client' tc ctx = call_tool client tc ctx"
    using call_determined_by_outcome [OF sent] by blast
  from one count result same show ?thesis
    by blast
qed

text \<open>
  Two clients that differ only on requests no tool sends (here: ones with certificate
  verification on) give the same invocation of \<^verbatim>\<open>fetch_token_data\<close>, which returns
  the body of the one response.
\<close>

theorem C9_token_data_witness:
  "call_tool
     \<lparr>post = \<lambda>q. Inr \<lparr>status_code = 200, body_text = ''{}''\<rparr>,
      status_message = \<lambda>r. ''unused''\<rparr>
     Fetch_token_data (Some ()) =
   call_tool
     \<lparr>post = \<lambda>q. if verify q then Inl (Request_error ''certificate'')
                    else Inr \<lparr>status_code = 200, body_text = ''{}''\<rparr>,
      status_message = \<lambda>r. ''unused''\<rparr>
     Fetch_token_data (Some ())
   \<and> fst (call_tool
     \<lparr>post = \<lambda>q. if verify q then Inl (Request_error ''certificate'')
                    else Inr \<lparr>status_code = 200, body_text = ''{}''\<rparr>,
      status_message = \<lambda>r. ''unused''\<rparr>
     Fetch_token_data (Some ())) = ''{}''"
proof -
  let ?lax = "\<lparr>post = \<lambda>q. Inr \<lparr>status_code = 200, body_text = ''{}''\<rparr>,
                status_message = \<lambda>r. ''unused''\<rparr>"
  let ?strict = "\<lparr>post = \<lambda>q. if verify q then Inl (Request_error ''certificate'')
                               else Inr \<lparr>status_code = 200, body_text = ''{}''\<rparr>,
                   status_message = \<lambda>r. ''unused''\<rparr>"
  from C9_one_request_one_response [of ?strict Fetch_token_data "Some ()"]
  obtain r where one: "posted (snd (call_tool ?strict Fetch_token_data (Some ()))) = [r]"
    and result: "case post ?strict r of
          Inl e \<Rightarrow>
            prefix ''Error '' (fst (call_tool ?strict Fetch_token_data (Some ()))) \<and>
            suffix (str e) (fst (call_tool ?strict Fetch_token_data (Some ())))
        | Inr resp \<Rightarrow>
            if is_success resp
            then fst (call_tool ?strict Fetch_token_data (Some ())) = body_text resp
            else prefix ''Error '' (fst (call_tool ?strict Fetch_token_data (Some ()))) \<and>
                 suffix (status_message ?strict resp)
                   (fst (call_tool ?strict Fetch_token_data (Some ())))"
    and same: "\<forall>client'.
          post client' r = post ?strict r \<and> status_message client' = status_message ?strict
          \<longrightarrow> call_tool client' Fetch_token_data (Some ()) =
              call_tool ?strict Fetch_token_data (Some ())"
    by blast
  from one have lax: "verify r = False"
    by (auto simp: posted_token_data)
  then have "post ?lax r = post ?strict r \<and> status_message ?lax = status_message ?strict"
    by simp
  with same have eq: "call_tool ?lax Fetch_token_data (Some ()) =
      call_tool ?strict Fetch_token_data (Some ())"
    by blast
  from result lax have "fst (call_tool ?strict Fetch_token_data (Some ())) = ''{}''"
    by (simp add: is_success_def)
  with eq show ?thesis
    by simp
qed

text \<open>
  Claim C10. The observer has no influence on what a tool returns: for one client and
  one call, the returned string is the same without an observer, with an observer,
  and with any other observer; nor does the observer change the request that is sent.
\<close>

theorem C10_observer_noninterference:
  "fst (call_tool client tc (None :: 'c option)) = fst (call_tool client tc (Some c))
   \<and> fst (call_tool client tc ctx1) = fst (call_tool client tc ctx2)
   \<and> posted (snd (call_tool client tc ctx1)) = posted (snd (call_tool client tc ctx2))"
proof -
  have "posted (snd (call_tool client tc ctx1)) = posted (snd (call_tool client tc ctx2))"
    by (cases tc) (simp_all add: posted_tools)
  then show ?thesis
    using result_ignores_ctx [of client tc None "Some c"]
      result_ignores_ctx [of client tc ctx1 ctx2]
    by simp
qed

end
